theory Spec2Isabelle
  imports Main "HOL-Library.AList"
begin

section \<open>CloudFront distributions: filters and actions of c7n/resources/cloudfront.py\<close>

text \<open>
  The Python works on dictionaries shaped by the CloudFront, WAF and S3 APIs. A key
  the code reads with a subscript (\<^verbatim>\<open>r['Id']\<close>) is a field of a record here; a key the
  code reads with \<^verbatim>\<open>.get\<close> or tests with \<^verbatim>\<open>in\<close> is an optional field, and a subscript
  on such a key raises \<^verbatim>\<open>KeyError\<close> where the key is absent. Exceptions are values
  of the type \<open>error\<close>; the remote services are parameters that take and return a world.
\<close>

subsection \<open>Data\<close>

datatype error =
    ValueError string
  | KeyError string
  | ClientError string
  | OtherError string

record custom_origin_config =
  OriginProtocolPolicy :: string
  OriginSslProtocols_Items :: "string list"
  OriginSslProtocols_Quantity :: nat

record origin =
  DomainName :: string
  S3OriginConfig :: "string option"
  CustomOriginConfig :: "custom_origin_config option"

record cache_behavior =
  ViewerProtocolPolicy :: string

record distribution_config =
  cfg_WebACLId :: string
  Enabled :: bool
  CacheBehaviors_Items :: "cache_behavior list option"
  DefaultCacheBehavior :: cache_behavior
  cfg_Origins_Items :: "origin list option"

text \<open>A resource snapshot, as the enumeration hands it to filters and actions.\<close>

record resource =
  Id' :: string
  ARN :: string
  WebACLId :: "string option"
  Origins_Items :: "origin list"
  c7n_s3_origin :: "bool option"

record waf =
  Name :: string
  waf_WebACLId :: string

record get_response =
  DistributionConfig :: distribution_config
  ETag :: string

text \<open>The requests sent to the remote services, each with the answer it got.\<close>

datatype call =
    GetDistributionConfig string "error + get_response"
  | UpdateDistribution string distribution_config string "error + unit"
  | GetBucketAcl string "error + string"

datatype log_record =
    LogDebug string
  | LogWarning string string error

record 'w state =
  world :: 'w
  calls :: "call list"
  logs :: "log_record list"

record 'w cloudfront_client =
  get_distribution_config :: "string \<Rightarrow> 'w \<Rightarrow> (error + get_response) \<times> 'w"
  update_distribution ::
    "string \<Rightarrow> distribution_config \<Rightarrow> string \<Rightarrow> 'w \<Rightarrow> (error + unit) \<times> 'w"

subsection \<open>Python helpers\<close>

text \<open>Truth value of a string, and of \<^verbatim>\<open>d.get(key)\<close> for a string-valued key.\<close>

definition truthy :: "string \<Rightarrow> bool" where
  "truthy s = (s \<noteq> [])"

definition truthy_get :: "string option \<Rightarrow> bool" where
  "truthy_get v = (case v of None \<Rightarrow> False | Some s \<Rightarrow> truthy s)"

text \<open>\<^verbatim>\<open>{w['Name']: w['WebACLId'] for w in wafs}\<close>: a later entry replaces an earlier
  one of the same name, in the earlier one's place.\<close>

definition waf_name_id_map :: "waf list \<Rightarrow> (string \<times> string) list" where
  "waf_name_id_map wafs = foldl (\<lambda>m w. AList.update (Name w) (waf_WebACLId w) m) [] wafs"

text \<open>\<^verbatim>\<open>waf_name_id_map.get(target_acl, target_acl)\<close>, where \<^verbatim>\<open>target_acl\<close> is
  \<^verbatim>\<open>self.data.get('web-acl')\<close>.\<close>

definition dict_get_default :: "(string \<times> string) list \<Rightarrow> string option \<Rightarrow> string option" where
  "dict_get_default m target_acl =
     (case target_acl of
        None \<Rightarrow> None
      | Some t \<Rightarrow> (case map_of m t of None \<Rightarrow> Some t | Some i \<Rightarrow> Some i))"

definition dict_values :: "(string \<times> string) list \<Rightarrow> string list" where
  "dict_values m = map snd m"

definition str_of :: "string option \<Rightarrow> string" where
  "str_of v = (case v of None \<Rightarrow> ''None'' | Some s \<Rightarrow> s)"

subsection \<open>The filter waf-enabled\<close>

record waf_enabled_data =
  web_acl :: "string option"
  state_flag :: "bool option"

text \<open>Lines 166 to 170 of \<^verbatim>\<open>IsWafEnabled.process\<close>: the target reference, resolved
  against the map \<open>m\<close> of names to ids.\<close>

definition IsWafEnabled_target_acl_id ::
  "(string \<times> string) list \<Rightarrow> string option \<Rightarrow> error + string option" where
  "IsWafEnabled_target_acl_id m target_acl =
     (let target_acl_id = dict_get_default m target_acl
      in if truthy_get target_acl_id \<and> the target_acl_id \<notin> set (dict_values m)
         then Inl (ValueError (''invalid web acl: '' @ str_of target_acl_id))
         else Inr target_acl_id)"

text \<open>\<^verbatim>\<open>r['WebACLId']\<close>.\<close>

definition subscript_WebACLId :: "resource \<Rightarrow> error + string" where
  "subscript_WebACLId r =
     (case WebACLId r of None \<Rightarrow> Inl (KeyError ''WebACLId'') | Some a \<Rightarrow> Inr a)"

text \<open>The \<^verbatim>\<open>if\<close>/\<^verbatim>\<open>elif\<close> chain of the loop body: whether \<open>r\<close> is appended. The conditions
  are evaluated left to right, so the subscript is reached only when the conjuncts before
  it hold.\<close>

definition waf_enabled_match :: "bool \<Rightarrow> string option \<Rightarrow> resource \<Rightarrow> error + bool" where
  "waf_enabled_match state target_acl_id r =
     (if state \<and> target_acl_id = None \<and> truthy_get (WebACLId r) then Inr True
      else if \<not> state \<and> target_acl_id = None \<and> \<not> truthy_get (WebACLId r) then Inr True
      else if state \<and> truthy_get target_acl_id then
        (case subscript_WebACLId r of
           Inl e \<Rightarrow> Inl e
         | Inr a \<Rightarrow> Inr (Some a = target_acl_id))
      else if \<not> state \<and> truthy_get target_acl_id then
        (case subscript_WebACLId r of
           Inl e \<Rightarrow> Inl e
         | Inr a \<Rightarrow> Inr (Some a \<noteq> target_acl_id))
      else Inr False)"

fun waf_enabled_loop ::
  "bool \<Rightarrow> string option \<Rightarrow> resource list \<Rightarrow> resource list \<Rightarrow> error + resource list" where
  "waf_enabled_loop state target_acl_id [] results = Inr results"
| "waf_enabled_loop state target_acl_id (r # rs) results =
     (case waf_enabled_match state target_acl_id r of
        Inl e \<Rightarrow> Inl e
      | Inr True \<Rightarrow> waf_enabled_loop state target_acl_id rs (results @ [r])
      | Inr False \<Rightarrow> waf_enabled_loop state target_acl_id rs results)"

definition IsWafEnabled_process ::
  "waf_enabled_data \<Rightarrow> waf list \<Rightarrow> resource list \<Rightarrow> error + resource list" where
  "IsWafEnabled_process data wafs resources =
     (case IsWafEnabled_target_acl_id (waf_name_id_map wafs) (web_acl data) of
        Inl e \<Rightarrow> Inl e
      | Inr target_acl_id \<Rightarrow>
          waf_enabled_loop (case state_flag data of None \<Rightarrow> False | Some b \<Rightarrow> b)
            target_acl_id resources [])"

subsection \<open>The filter check-s3-origin\<close>

record 'src check_s3_origin_data =
  accounts_from :: "'src option"

text \<open>A request to a remote service: the answer, the new world, and the request
  appended to the record of requests.\<close>

definition call_get_bucket_acl ::
  "(string \<Rightarrow> 'w \<Rightarrow> (error + string) \<times> 'w) \<Rightarrow> string \<Rightarrow> 'w state
     \<Rightarrow> (error + string) \<times> 'w state" where
  "call_get_bucket_acl get_bucket_acl bucket st =
     (case get_bucket_acl bucket (world st) of
        (res, w) \<Rightarrow> (res, st\<lparr>world := w, calls := calls st @ [GetBucketAcl bucket res]\<rparr>))"

definition log_debug :: "string \<Rightarrow> 'w state \<Rightarrow> 'w state" where
  "log_debug msg st = st\<lparr>logs := logs st @ [LogDebug msg]\<rparr>"


text \<open>\<^verbatim>\<open>x['DomainName'].split('.', 1)[0]\<close>.\<close>

definition target_bucket :: "origin \<Rightarrow> string" where
  "target_bucket x = takeWhile (\<lambda>c. c \<noteq> CHR ''.'') (DomainName x)"

text \<open>The body of the inner loop, for one origin \<open>x\<close> of the resource \<open>r\<close>. The answer of
  the S3 client is the owner's id (\<^verbatim>\<open>b['Owner']['ID']\<close>) or the exception raised; only a
  \<^verbatim>\<open>ClientError\<close> is caught. The resource is marked in place before it is appended, so
  every entry of \<open>results\<close> for it carries the mark.\<close>

definition check_origin ::
  "string list \<Rightarrow> (string \<Rightarrow> 'w \<Rightarrow> (error + string) \<times> 'w) \<Rightarrow> origin
     \<Rightarrow> resource \<times> resource list \<Rightarrow> 'w state
     \<Rightarrow> (error + resource \<times> resource list) \<times> 'w state" where
  "check_origin accounts get_bucket_acl x acc st =
     (case acc of (r, results) \<Rightarrow>
      if S3OriginConfig x \<noteq> None then
        (case call_get_bucket_acl get_bucket_acl (target_bucket x) st of
           (Inr owner_id, st1) \<Rightarrow>
             (let st2 = log_debug (''Target bucket '' @ target_bucket x @ '' exists.'') st1
              in if accounts \<noteq> [] \<and> owner_id \<notin> set accounts
                 then (Inr (r, results),
                       log_debug (''Bucket '' @ target_bucket x @ '' owner not in accounts list.'') st2)
                 else (let r' = r\<lparr>c7n_s3_origin := Some True\<rparr>
                       in (Inr (r', results @ [r']), st2)))
         | (Inl (ClientError code), st1) \<Rightarrow>
             if code = ''AccessDenied''
             then (Inr (r, results), log_debug (''Non-accessible bucket: '' @ target_bucket x) st1)
             else if code = ''NoSuchBucket''
             then (Inr (r, results), log_debug (''Non-existent bucket: '' @ target_bucket x) st1)
             else (Inl (ClientError code), st1)
         | (Inl e, st1) \<Rightarrow> (Inl e, st1))
      else (Inr (r, results), st))"

fun check_origins ::
  "string list \<Rightarrow> (string \<Rightarrow> 'w \<Rightarrow> (error + string) \<times> 'w) \<Rightarrow> origin list
     \<Rightarrow> resource \<times> resource list \<Rightarrow> 'w state
     \<Rightarrow> (error + resource \<times> resource list) \<times> 'w state" where
  "check_origins accounts get_bucket_acl [] acc st = (Inr acc, st)"
| "check_origins accounts get_bucket_acl (x # xs) acc st =
     (case check_origin accounts get_bucket_acl x acc st of
        (Inl e, st1) \<Rightarrow> (Inl e, st1)
      | (Inr acc1, st1) \<Rightarrow> check_origins accounts get_bucket_acl xs acc1 st1)"

fun check_resources ::
  "string list \<Rightarrow> (string \<Rightarrow> 'w \<Rightarrow> (error + string) \<times> 'w) \<Rightarrow> resource list
     \<Rightarrow> resource list \<Rightarrow> 'w state \<Rightarrow> (error + resource list) \<times> 'w state" where
  "check_resources accounts get_bucket_acl [] results st = (Inr results, st)"
| "check_resources accounts get_bucket_acl (r # rs) results st =
     (case check_origins accounts get_bucket_acl (Origins_Items r) (r, results) st of
        (Inl e, st1) \<Rightarrow> (Inl e, st1)
      | (Inr (r', results1), st1) \<Rightarrow> check_resources accounts get_bucket_acl rs results1 st1)"

text \<open>\<^verbatim>\<open>CheckS3Origin.process\<close>. \<open>get_values\<close> stands for
  \<^verbatim>\<open>ValuesFrom(...).get_values()\<close>, which is not part of this file.\<close>

definition CheckS3Origin_process ::
  "'src check_s3_origin_data \<Rightarrow> ('src \<Rightarrow> error + string list)
     \<Rightarrow> (string \<Rightarrow> 'w \<Rightarrow> (error + string) \<times> 'w) \<Rightarrow> resource list \<Rightarrow> 'w state
     \<Rightarrow> (error + resource list) \<times> 'w state" where
  "CheckS3Origin_process data get_values get_bucket_acl resources st =
     (case accounts_from data of
        None \<Rightarrow> (Inl (KeyError ''accounts_from''), st)
      | Some src \<Rightarrow>
          (case get_values src of
             Inl e \<Rightarrow> (Inl e, st)
           | Inr accounts \<Rightarrow> check_resources accounts get_bucket_acl resources [] st))"

subsection \<open>Requests to CloudFront\<close>

definition call_get_distribution_config ::
  "'w cloudfront_client \<Rightarrow> string \<Rightarrow> 'w state \<Rightarrow> (error + get_response) \<times> 'w state" where
  "call_get_distribution_config client i st =
     (case get_distribution_config client i (world st) of
        (res, w) \<Rightarrow> (res, st\<lparr>world := w, calls := calls st @ [GetDistributionConfig i res]\<rparr>))"

definition call_update_distribution ::
  "'w cloudfront_client \<Rightarrow> string \<Rightarrow> distribution_config \<Rightarrow> string \<Rightarrow> 'w state
     \<Rightarrow> (error + unit) \<times> 'w state" where
  "call_update_distribution client i config if_match st =
     (case update_distribution client i config if_match (world st) of
        (res, w) \<Rightarrow>
          (res, st\<lparr>world := w, calls := calls st @ [UpdateDistribution i config if_match res]\<rparr>))"

text \<open>Modelled from the spec: \<^verbatim>\<open>c7n.utils.get_retry\<close> is not among the sources. The spec's
  RetryPolicy sorts error codes into a retryable set and everything else, which is terminal
  at once; a retryable error is retried for a bounded number of attempts, and the error of
  the last attempt is the result. \<open>retry_attempts codes n\<close> makes at most \<open>n + 1\<close> attempts
  of the same call; the number of attempts is a parameter, and the waiting time between
  attempts is not modelled.\<close>

fun retry_attempts ::
  "string list \<Rightarrow> nat \<Rightarrow> ('s \<Rightarrow> (error + 'a) \<times> 's) \<Rightarrow> 's \<Rightarrow> (error + 'a) \<times> 's" where
  "retry_attempts codes 0 f st = f st"
| "retry_attempts codes (Suc n) f st =
     (case f st of
        (Inl (ClientError code), st1) \<Rightarrow>
          if code \<in> set codes then retry_attempts codes n f st1
          else (Inl (ClientError code), st1)
      | (res, st1) \<Rightarrow> (res, st1))"

text \<open>Modelled from the spec: \<^verbatim>\<open>get_retry(codes)\<close> of \<^verbatim>\<open>c7n.utils\<close>, the retry of a call
  for the retryable codes with a budget of \<open>max_attempts\<close> attempts.\<close>

definition get_retry ::
  "string list \<Rightarrow> nat \<Rightarrow> ('s \<Rightarrow> (error + 'a) \<times> 's) \<Rightarrow> 's \<Rightarrow> (error + 'a) \<times> 's" where
  "get_retry codes max_attempts = retry_attempts codes (max_attempts - 1)"

subsection \<open>The action set-waf\<close>

record set_waf_data =
  set_web_acl :: "string option"
  force_flag :: "bool option"

text \<open>Lines 261 to 265 of \<^verbatim>\<open>SetWaf.process\<close>, for the map \<open>m\<close> of names to ids.
  \<^verbatim>\<open>None\<close> is never among the values of the map, so an absent \<^verbatim>\<open>web-acl\<close> raises as well.\<close>

definition SetWaf_target_acl_id ::
  "(string \<times> string) list \<Rightarrow> string option \<Rightarrow> error + string" where
  "SetWaf_target_acl_id m target_acl =
     (let target_acl_id = dict_get_default m target_acl
      in case target_acl_id of
           None \<Rightarrow> Inl (ValueError (''invalid web acl: '' @ str_of target_acl_id))
         | Some i \<Rightarrow>
             if i \<notin> set (dict_values m)
             then Inl (ValueError (''invalid web acl: '' @ str_of target_acl_id))
             else Inr i)"

text \<open>The loop of \<^verbatim>\<open>SetWaf.process\<close>: nothing catches an exception of either request, so
  the first one ends the loop and the call.\<close>

fun SetWaf_loop ::
  "'w cloudfront_client \<Rightarrow> nat \<Rightarrow> bool \<Rightarrow> string \<Rightarrow> resource list \<Rightarrow> 'w state
     \<Rightarrow> (error + unit) \<times> 'w state" where
  "SetWaf_loop client max_attempts force target_acl_id [] st = (Inr (), st)"
| "SetWaf_loop client max_attempts force target_acl_id (r # rs) st =
     (if truthy_get (WebACLId r) \<and> \<not> force
      then SetWaf_loop client max_attempts force target_acl_id rs st
      else if WebACLId r = Some target_acl_id
      then SetWaf_loop client max_attempts force target_acl_id rs st
      else
        (case call_get_distribution_config client (Id' r) st of
           (Inl e, st1) \<Rightarrow> (Inl e, st1)
         | (Inr result, st1) \<Rightarrow>
             (let config = (DistributionConfig result)\<lparr>cfg_WebACLId := target_acl_id\<rparr>
              in case get_retry [''Throttling''] max_attempts
                        (call_update_distribution client (Id' r) config (ETag result)) st1 of
                   (Inl e, st2) \<Rightarrow> (Inl e, st2)
                 | (Inr u, st2) \<Rightarrow> SetWaf_loop client max_attempts force target_acl_id rs st2)))"

definition SetWaf_process ::
  "set_waf_data \<Rightarrow> nat \<Rightarrow> waf list \<Rightarrow> 'w cloudfront_client \<Rightarrow> resource list \<Rightarrow> 'w state
     \<Rightarrow> (error + unit) \<times> 'w state" where
  "SetWaf_process data max_attempts wafs client resources st =
     (case SetWaf_target_acl_id (waf_name_id_map wafs) (set_web_acl data) of
        Inl e \<Rightarrow> (Inl e, st)
      | Inr target_acl_id \<Rightarrow>
          SetWaf_loop client max_attempts
            (case force_flag data of None \<Rightarrow> False | Some b \<Rightarrow> b) target_acl_id resources st)"

subsection \<open>The action disable\<close>



subsection \<open>The action set-protocols\<close>








subsection \<open>Reading the record of requests\<close>


fun writes :: "call list \<Rightarrow> string list" where
  "writes [] = []"
| "writes (UpdateDistribution i config if_match res # cs) = i # writes cs"
| "writes (c # cs) = writes cs"


text \<open>\<open>last_token seen cs\<close>: for each id, the token its latest fetch in \<open>cs\<close> returned
  (none when that fetch failed), starting from \<open>seen\<close>.\<close>

fun last_token :: "(string \<Rightarrow> string option) \<Rightarrow> call list \<Rightarrow> string \<Rightarrow> string option" where
  "last_token seen [] = seen"
| "last_token seen (GetDistributionConfig i (Inr res) # cs) = last_token (seen(i := Some (ETag res))) cs"
| "last_token seen (GetDistributionConfig i (Inl e) # cs) = last_token (seen(i := None)) cs"
| "last_token seen (c # cs) = last_token seen cs"

text \<open>Every write in the record carries the token that the latest fetch of the same id
  before it returned; as that fetch is the latest one, no fetch of the id lies between.\<close>

fun write_tokens_fresh :: "(string \<Rightarrow> string option) \<Rightarrow> call list \<Rightarrow> bool" where
  "write_tokens_fresh seen [] = True"
| "write_tokens_fresh seen (UpdateDistribution i config if_match res # cs) =
     (seen i = Some if_match \<and> write_tokens_fresh seen cs)"
| "write_tokens_fresh seen (c # cs) = write_tokens_fresh (last_token seen [c]) cs"

subsection \<open>A remote service for the examples\<close>

text \<open>A CloudFront that stores a configuration and a token for each id, refuses a write
  whose token is not the current one with \<^verbatim>\<open>PreconditionFailed\<close>, and issues a new
  token with every accepted write. An id listed in \<open>racing\<close> is rewritten by somebody
  else right after its next fetch; an id listed in \<open>failing\<close> has its writes refused with
  the code given there.\<close>

record remote =
  store :: "(string \<times> distribution_config \<times> string) list"
  racing :: "string list"
  failing :: "(string \<times> string) list"

definition mock_get :: "string \<Rightarrow> remote \<Rightarrow> (error + get_response) \<times> remote" where
  "mock_get i w =
     (case map_of (store w) i of
        None \<Rightarrow> (Inl (ClientError ''NoSuchDistribution''), w)
      | Some (config, tag) \<Rightarrow>
          (Inr \<lparr>DistributionConfig = config, ETag = tag\<rparr>,
           if i \<in> set (racing w)
           then w\<lparr>store := AList.update i (config, tag @ ''+'') (store w),
                  racing := remove1 i (racing w)\<rparr>
           else w))"

definition mock_update ::
  "string \<Rightarrow> distribution_config \<Rightarrow> string \<Rightarrow> remote \<Rightarrow> (error + unit) \<times> remote" where
  "mock_update i config if_match w =
     (case map_of (store w) i of
        None \<Rightarrow> (Inl (ClientError ''NoSuchDistribution''), w)
      | Some (old, tag) \<Rightarrow>
          (case map_of (failing w) i of
             Some code \<Rightarrow> (Inl (ClientError code), w)
           | None \<Rightarrow>
               if if_match \<noteq> tag then (Inl (ClientError ''PreconditionFailed''), w)
               else (Inr (), w\<lparr>store := AList.update i (config, tag @ ''+'') (store w)\<rparr>)))"

definition mock_client :: "remote cloudfront_client" where
  "mock_client = \<lparr>get_distribution_config = mock_get, update_distribution = mock_update\<rparr>"

text \<open>An S3 that answers from a table; a bucket not in the table does not exist.\<close>

definition mock_get_bucket_acl ::
  "(string \<times> (error + string)) list \<Rightarrow> string \<Rightarrow> unit \<Rightarrow> (error + string) \<times> unit" where
  "mock_get_bucket_acl table bucket w =
     (case map_of table bucket of
        None \<Rightarrow> (Inl (ClientError ''NoSuchBucket''), w)
      | Some res \<Rightarrow> (res, w))"

definition example_config :: "string \<Rightarrow> distribution_config" where
  "example_config acl =
     \<lparr>cfg_WebACLId = acl, Enabled = True, CacheBehaviors_Items = None,
      DefaultCacheBehavior = \<lparr>ViewerProtocolPolicy = ''allow-all''\<rparr>,
      cfg_Origins_Items = None\<rparr>"

definition example_resource :: "string \<Rightarrow> string option \<Rightarrow> origin list \<Rightarrow> resource" where
  "example_resource i acl origins =
     \<lparr>Id' = i, ARN = ''arn:aws:cloudfront::1:distribution/'' @ i, WebACLId = acl,
      Origins_Items = origins, c7n_s3_origin = None\<rparr>"

definition s3_origin :: "string \<Rightarrow> origin" where
  "s3_origin domain = \<lparr>DomainName = domain, S3OriginConfig = Some [], CustomOriginConfig = None\<rparr>"

definition start :: "'w \<Rightarrow> 'w state" where
  "start w = \<lparr>world = w, calls = [], logs = []\<rparr>"

text \<open>The lookup table of the spec's example: \<^verbatim>\<open>{"acl-a": "id-123", "acl-b": "id-456"}\<close>.\<close>

definition example_wafs :: "waf list" where
  "example_wafs =
     [\<lparr>Name = ''acl-a'', waf_WebACLId = ''id-123''\<rparr>,
      \<lparr>Name = ''acl-b'', waf_WebACLId = ''id-456''\<rparr>]"



definition five_resources :: "resource list" where
  "five_resources =
     map (\<lambda>i. example_resource i (Some []) []) [''d1'', ''d2'', ''d3'', ''d4'', ''d5'']"

definition five_remote :: remote where
  "five_remote =
     \<lparr>store = map (\<lambda>i. (i, example_config [], ''v1'')) [''d1'', ''d2'', ''d3'', ''d4'', ''d5''],
      racing = [], failing = [(''d3'', ''InternalError'')]\<rparr>"

text \<open>Buckets for the examples: one that refuses the request, two owned by the account
  \<^verbatim>\<open>acct-1\<close>, one owned by somebody else, and one for which S3 fails.\<close>

definition example_buckets :: "(string \<times> (error + string)) list" where
  "example_buckets =
     [(''secret'', Inl (ClientError ''AccessDenied'')),
      (''open'', Inr ''acct-1''),
      (''other'', Inr ''acct-1''),
      (''foreign'', Inr ''acct-9''),
      (''broken'', Inl (ClientError ''InternalError''))]"

section \<open>Properties\<close>

subsection \<open>Resolving the target reference\<close>

lemma example_wafs_map:
  "waf_name_id_map example_wafs = [(''acl-a'', ''id-123''), (''acl-b'', ''id-456'')]"
  by (simp add: waf_name_id_map_def example_wafs_def)

lemma map_of_in_values: "map_of m t = Some i \<Longrightarrow> i \<in> set (dict_values m)"
  by (auto simp: dict_values_def dest!: map_of_SomeD intro: rev_image_eqI)

text \<open>
  C4, as the code has it. The claim lets an input that is an identifier of the table come
  back unchanged; the code looks the input up as a name first, so an input that is both a
  name and an identifier resolves to the identifier stored under that name. What holds:
  a known name resolves to its identifier; an input that is no name but is an identifier
  of the table comes back unchanged; an input that is neither is refused with
  \<^verbatim>\<open>ValueError\<close>. The filter waf-enabled does the same for every non-empty reference.
\<close>

theorem resolve_name_first:
  "(map_of m t = Some i \<longrightarrow>
      SetWaf_target_acl_id m (Some t) = Inr i \<and>
      (i \<noteq> [] \<longrightarrow> IsWafEnabled_target_acl_id m (Some t) = Inr (Some i))) \<and>
   (map_of m t = None \<and> t \<in> set (dict_values m) \<longrightarrow>
      SetWaf_target_acl_id m (Some t) = Inr t \<and>
      IsWafEnabled_target_acl_id m (Some t) = Inr (Some t)) \<and>
   (map_of m t = None \<and> t \<notin> set (dict_values m) \<longrightarrow>
      SetWaf_target_acl_id m (Some t) = Inl (ValueError (''invalid web acl: '' @ t)) \<and>
      (t \<noteq> [] \<longrightarrow>
         IsWafEnabled_target_acl_id m (Some t) = Inl (ValueError (''invalid web acl: '' @ t))))"
  by (auto simp: SetWaf_target_acl_id_def IsWafEnabled_target_acl_id_def dict_get_default_def
      str_of_def truthy_get_def truthy_def Let_def dest: map_of_in_values)

theorem resolve_name_first_witness:
  "SetWaf_target_acl_id (waf_name_id_map example_wafs) (Some ''acl-a'') = Inr ''id-123'' \<and>
   IsWafEnabled_target_acl_id (waf_name_id_map example_wafs) (Some ''acl-a'') = Inr (Some ''id-123'') \<and>
   SetWaf_target_acl_id (waf_name_id_map example_wafs) (Some ''id-456'') = Inr ''id-456'' \<and>
   IsWafEnabled_target_acl_id (waf_name_id_map example_wafs) (Some ''id-456'') = Inr (Some ''id-456'') \<and>
   SetWaf_target_acl_id (waf_name_id_map example_wafs) (Some ''acl-z'')
     = Inl (ValueError ''invalid web acl: acl-z'') \<and>
   IsWafEnabled_target_acl_id (waf_name_id_map example_wafs) (Some ''acl-z'')
     = Inl (ValueError ''invalid web acl: acl-z'')"
  using resolve_name_first [of "waf_name_id_map example_wafs" "''acl-a''" "''id-123''"]
    resolve_name_first [of "waf_name_id_map example_wafs" "''id-456''"]
    resolve_name_first [of "waf_name_id_map example_wafs" "''acl-z''"]
  by (simp add: example_wafs_map dict_values_def)

text \<open>
  C4, as the claim states it, fails: in the table \<^verbatim>\<open>{"acl-a": "acl-b", "acl-b": "id-456"}\<close>
  the input \<^verbatim>\<open>"acl-b"\<close> is an identifier of the value set, and it resolves to
  \<^verbatim>\<open>"id-456"\<close>, not to itself.
\<close>

theorem resolve_identifier_unchanged_counterexample:
  "\<not> (\<forall>m t. t \<in> set (dict_values m) \<longrightarrow> SetWaf_target_acl_id m (Some t) = Inr t)"
proof
  assume a: "\<forall>m t. t \<in> set (dict_values m) \<longrightarrow> SetWaf_target_acl_id m (Some t) = Inr t"
  have "''acl-b'' \<in> set (dict_values [(''acl-a'', ''acl-b''), (''acl-b'', ''id-456'')])"
    by (simp add: dict_values_def)
  with a have
    "SetWaf_target_acl_id [(''acl-a'', ''acl-b''), (''acl-b'', ''id-456'')] (Some ''acl-b'')
       = Inr ''acl-b''"
    by blast
  then show False
    by (simp add: SetWaf_target_acl_id_def dict_get_default_def dict_values_def)
qed

subsection \<open>The filter waf-enabled\<close>


lemma target_acl_id_None: "IsWafEnabled_target_acl_id m None = Inr None"
  by (simp add: IsWafEnabled_target_acl_id_def dict_get_default_def truthy_get_def)


lemma example_target_acl_a:
  "IsWafEnabled_target_acl_id (waf_name_id_map example_wafs) (Some ''acl-a'') = Inr (Some ''id-123'')"
  by (simp add: example_wafs_map IsWafEnabled_target_acl_id_def dict_get_default_def
      dict_values_def truthy_get_def truthy_def)



text \<open>
  C10: the filter raises on a resource without the attribute when a target is given. With
  the target \<^verbatim>\<open>acl-a\<close> and \<open>state = true\<close>, the subscript \<^verbatim>\<open>r['WebACLId']\<close> of the third
  branch raises \<^verbatim>\<open>KeyError\<close> for such a resource; with \<open>state = false\<close> the fourth branch
  does. The first two branches read the attribute with \<^verbatim>\<open>r.get\<close> and do not raise.
\<close>

theorem waf_enabled_missing_attribute_raises:
  "IsWafEnabled_process \<lparr>web_acl = Some ''acl-a'', state_flag = Some True\<rparr> example_wafs
     [example_resource ''d1'' None []] = Inl (KeyError ''WebACLId'') \<and>
   IsWafEnabled_process \<lparr>web_acl = Some ''acl-a'', state_flag = Some False\<rparr> example_wafs
     [example_resource ''d1'' None []] = Inl (KeyError ''WebACLId'') \<and>
   IsWafEnabled_process \<lparr>web_acl = None, state_flag = Some True\<rparr> example_wafs
     [example_resource ''d1'' None []] = Inr [] \<and>
   IsWafEnabled_process \<lparr>web_acl = None, state_flag = Some False\<rparr> example_wafs
     [example_resource ''d1'' None []] = Inr [example_resource ''d1'' None []]"
  by (simp add: IsWafEnabled_process_def example_target_acl_a target_acl_id_None
      truthy_get_def truthy_def waf_enabled_match_def example_resource_def subscript_WebACLId_def)

subsection \<open>The record of requests\<close>


lemma writes_append: "writes (cs @ cs') = writes cs @ writes cs'"
  by (induction cs rule: writes.induct) auto




text \<open>The predicate tells a stale token from a fresh one: a write that carries the token
  of the fetch before the latest one is refused by it.\<close>

lemma write_tokens_fresh_rejects_stale:
  "\<not> write_tokens_fresh (\<lambda>i. None)
       [GetDistributionConfig ''d1'' (Inr \<lparr>DistributionConfig = example_config [], ETag = ''v1''\<rparr>),
        GetDistributionConfig ''d1'' (Inr \<lparr>DistributionConfig = example_config [], ETag = ''v2''\<rparr>),
        UpdateDistribution ''d1'' (example_config []) ''v1'' (Inr ())]"
  by simp




subsection \<open>The retry of a write\<close>




subsection \<open>The action set-waf\<close>







text \<open>
  C5: when the reference is neither a name of the table nor one of its identifiers,
  \<^verbatim>\<open>SetWaf.process\<close> raises \<^verbatim>\<open>ValueError\<close> before the loop: the state it returns is the
  state it was given, so no request was sent and no remote configuration changed,
  whatever the resources and the client.
\<close>

theorem set_waf_unknown_reference_no_write:
  "set_web_acl data = Some t \<Longrightarrow> map_of (waf_name_id_map wafs) t = None \<Longrightarrow>
   t \<notin> set (dict_values (waf_name_id_map wafs)) \<Longrightarrow>
   SetWaf_process data n wafs client resources st
     = (Inl (ValueError (''invalid web acl: '' @ t)), st)"
  by (simp add: SetWaf_process_def SetWaf_target_acl_id_def dict_get_default_def str_of_def)

theorem set_waf_unknown_reference_no_write_witness:
  "SetWaf_process \<lparr>set_web_acl = Some ''acl-z'', force_flag = Some True\<rparr> 8 example_wafs
     mock_client five_resources (start five_remote)
   = (Inl (ValueError ''invalid web acl: acl-z''), start five_remote)"
  using set_waf_unknown_reference_no_write
    [of "\<lparr>set_web_acl = Some ''acl-z'', force_flag = Some True\<rparr>" "''acl-z''" example_wafs
        8 mock_client five_resources "start five_remote"]
  by (simp add: example_wafs_map dict_values_def)




subsection \<open>The actions disable and set-protocols\<close>

























subsection \<open>The filter check-s3-origin\<close>




lemmas s3_defs =
  check_origin_def call_get_bucket_acl_def log_debug_def target_bucket_def
  mock_get_bucket_acl_def example_buckets_def s3_origin_def example_resource_def start_def



text \<open>
  C9: the filter appends the resource once for every S3 origin that passes the check, so a
  distribution with two S3 origins whose buckets both exist and belong to an account of
  the list is returned twice.
\<close>

theorem s3_origin_result_duplicates:
  "fst (CheckS3Origin_process \<lparr>accounts_from = Some ''accounts-url''\<rparr> (\<lambda>src. Inr [''acct-1''])
     (mock_get_bucket_acl example_buckets)
     [example_resource ''d1'' None
        [s3_origin ''open.s3.amazonaws.com'', s3_origin ''other.s3.amazonaws.com'']] (start ()))
   = Inr [(example_resource ''d1'' None
        [s3_origin ''open.s3.amazonaws.com'', s3_origin ''other.s3.amazonaws.com''])
          \<lparr>c7n_s3_origin := Some True\<rparr>,
        (example_resource ''d1'' None
        [s3_origin ''open.s3.amazonaws.com'', s3_origin ''other.s3.amazonaws.com''])
          \<lparr>c7n_s3_origin := Some True\<rparr>]"
  by (simp add: CheckS3Origin_process_def s3_defs Let_def)

end
